theory Spec2Isabelle
  imports Main "HOL-Library.AList"
begin

section \<open>Python strings\<close>

text \<open>
  A Python \<open>str\<close> is modelled as a \<open>string\<close> whose characters are the code points
  below 256.  \<open>str.isspace\<close> (which is also what \<open>\<close>\<open>\s\<close> matches and what
  \<open>str.strip\<close> removes) holds there for the code points 9 to 13, 28 to 32, 133 and 160.
\<close>

definition whitespace :: "char list" where
  "whitespace = [CHR 0x09, CHR 0x0A, CHR 0x0B, CHR 0x0C, CHR 0x0D,
                 CHR 0x1C, CHR 0x1D, CHR 0x1E, CHR 0x1F, CHR 0x20, CHR 0x85, CHR 0xA0]"

definition isspace :: "char \<Rightarrow> bool" where
  "isspace c = (c \<in> set whitespace)"

definition upper_chars :: "char list" where
  "upper_chars = ''ABCDEFGHIJKLMNOPQRSTUVWXYZ'' @
     [CHR 0xC0, CHR 0xC1, CHR 0xC2, CHR 0xC3, CHR 0xC4, CHR 0xC5, CHR 0xC6, CHR 0xC7,
      CHR 0xC8, CHR 0xC9, CHR 0xCA, CHR 0xCB, CHR 0xCC, CHR 0xCD, CHR 0xCE, CHR 0xCF,
      CHR 0xD0, CHR 0xD1, CHR 0xD2, CHR 0xD3, CHR 0xD4, CHR 0xD5, CHR 0xD6,
      CHR 0xD8, CHR 0xD9, CHR 0xDA, CHR 0xDB, CHR 0xDC, CHR 0xDD, CHR 0xDE]"

definition lower_chars :: "char list" where
  "lower_chars = ''abcdefghijklmnopqrstuvwxyz'' @
     [CHR 0xE0, CHR 0xE1, CHR 0xE2, CHR 0xE3, CHR 0xE4, CHR 0xE5, CHR 0xE6, CHR 0xE7,
      CHR 0xE8, CHR 0xE9, CHR 0xEA, CHR 0xEB, CHR 0xEC, CHR 0xED, CHR 0xEE, CHR 0xEF,
      CHR 0xF0, CHR 0xF1, CHR 0xF2, CHR 0xF3, CHR 0xF4, CHR 0xF5, CHR 0xF6,
      CHR 0xF8, CHR 0xF9, CHR 0xFA, CHR 0xFB, CHR 0xFC, CHR 0xFD, CHR 0xFE]"

definition lower_char :: "char \<Rightarrow> char" where
  "lower_char c = (case map_of (zip upper_chars lower_chars) c of Some l \<Rightarrow> l | None \<Rightarrow> c)"

definition lower :: "string \<Rightarrow> string" where
  "lower s = map lower_char s"

definition lstrip :: "string \<Rightarrow> string" where
  "lstrip s = dropWhile isspace s"

definition rstrip :: "string \<Rightarrow> string" where
  "rstrip s = rev (dropWhile isspace (rev s))"

definition strip :: "string \<Rightarrow> string" where
  "strip s = rstrip (lstrip s)"

fun startswith :: "string \<Rightarrow> string \<Rightarrow> bool" where
  "startswith s [] = True"
| "startswith [] (p # ps) = False"
| "startswith (c # cs) (p # ps) = (c = p \<and> startswith cs ps)"

definition startswith_any :: "string \<Rightarrow> string list \<Rightarrow> bool" where
  "startswith_any s ps = list_ex (startswith s) ps"

definition endswith :: "string \<Rightarrow> string \<Rightarrow> bool" where
  "endswith s p = startswith (rev s) (rev p)"

definition replace_char :: "char \<Rightarrow> string \<Rightarrow> string \<Rightarrow> string" where
  "replace_char old new s = concat (map (\<lambda>c. if c = old then new else [c]) s)"

text \<open>\<open>re.sub(r'\<close>\<open>\s+', ' ', s)\<close>: every maximal run of whitespace becomes one space.\<close>

function sub_spaces :: "string \<Rightarrow> string" where
  "sub_spaces [] = []"
| "sub_spaces (c # cs) =
     (if isspace c then CHR '' '' # sub_spaces (dropWhile isspace cs)
      else c # sub_spaces cs)"
  by pat_completeness auto
termination
  by (relation "measure length") (auto simp: length_dropWhile_le less_Suc_eq_le)

section \<open>Regular expressions\<close>

datatype citem = CChar char | CRange char char | CSpace

datatype regex =
    Eps
  | Chr char
  | Cls "citem list"
  | Cat regex regex
  | Alt regex regex
  | Opt regex
  | Greedy nat "nat option" "citem list"
  | Lazy nat "citem list"
  | Grp regex

definition in_range :: "char \<Rightarrow> char \<Rightarrow> char \<Rightarrow> bool" where
  "in_range lo hi c = ((of_char lo :: nat) \<le> of_char c \<and> (of_char c :: nat) \<le> of_char hi)"

definition swap_case :: "char \<Rightarrow> char" where
  "swap_case c = (case map_of (zip (''ABCDEFGHIJKLMNOPQRSTUVWXYZ'' @ ''abcdefghijklmnopqrstuvwxyz'')
                                   (''abcdefghijklmnopqrstuvwxyz'' @ ''ABCDEFGHIJKLMNOPQRSTUVWXYZ'')) c
                  of Some d \<Rightarrow> d | None \<Rightarrow> c)"

fun item_has :: "citem \<Rightarrow> char \<Rightarrow> bool" where
  "item_has (CChar x) c = (c = x)"
| "item_has (CRange lo hi) c = in_range lo hi c"
| "item_has CSpace c = isspace c"

definition chr_ic :: "char \<Rightarrow> char \<Rightarrow> bool" where
  "chr_ic x c = (c = x \<or> swap_case c = x)"

definition cls_ic :: "citem list \<Rightarrow> char \<Rightarrow> bool" where
  "cls_ic items c = list_ex (\<lambda>i. item_has i c \<or> item_has i (swap_case c)) items"

type_synonym 'r cont = "string \<Rightarrow> string option \<Rightarrow> 'r option"

fun greedy :: "(char \<Rightarrow> bool) \<Rightarrow> nat \<Rightarrow> nat option \<Rightarrow> 'r cont \<Rightarrow> 'r cont" where
  "greedy p lo hi k [] g = (if lo = 0 then k [] g else None)"
| "greedy p lo hi k (c # cs) g =
     (if p c \<and> hi \<noteq> Some 0 then
        (case greedy p (lo - 1) (map_option (\<lambda>h. h - 1) hi) k cs g of
           Some r \<Rightarrow> Some r
         | None \<Rightarrow> if lo = 0 then k (c # cs) g else None)
      else if lo = 0 then k (c # cs) g else None)"

fun lazy :: "(char \<Rightarrow> bool) \<Rightarrow> nat \<Rightarrow> 'r cont \<Rightarrow> 'r cont" where
  "lazy p lo k [] g = (if lo = 0 then k [] g else None)"
| "lazy p lo k (c # cs) g =
     (if lo = 0 then
        (case k (c # cs) g of
           Some r \<Rightarrow> Some r
         | None \<Rightarrow> if p c then lazy p 0 k cs g else None)
      else if p c then lazy p (lo - 1) k cs g else None)"

primrec rmatch :: "regex \<Rightarrow> 'r cont \<Rightarrow> 'r cont" where
  "rmatch Eps k = k"
| "rmatch (Chr x) k = (\<lambda>s g. case s of [] \<Rightarrow> None | c # cs \<Rightarrow> if chr_ic x c then k cs g else None)"
| "rmatch (Cls items) k = (\<lambda>s g. case s of [] \<Rightarrow> None | c # cs \<Rightarrow> if cls_ic items c then k cs g else None)"
| "rmatch (Cat a b) k = rmatch a (rmatch b k)"
| "rmatch (Alt a b) k = (\<lambda>s g. case rmatch a k s g of Some r \<Rightarrow> Some r | None \<Rightarrow> rmatch b k s g)"
| "rmatch (Opt a) k = (\<lambda>s g. case rmatch a k s g of Some r \<Rightarrow> Some r | None \<Rightarrow> k s g)"
| "rmatch (Greedy lo hi items) k = greedy (cls_ic items) lo hi k"
| "rmatch (Lazy lo items) k = lazy (cls_ic items) lo k"
| "rmatch (Grp a) k = (\<lambda>s g. rmatch a (\<lambda>s' g'. k s' (Some (take (length s - length s') s))) s g)"

definition match_at :: "regex \<Rightarrow> string \<Rightarrow> string option option" where
  "match_at r s = rmatch r (\<lambda>s' g. Some g) s None"

fun re_search :: "regex \<Rightarrow> string \<Rightarrow> string option option" where
  "re_search r [] = match_at r []"
| "re_search r (c # cs) = (case match_at r (c # cs) of Some m \<Rightarrow> Some m | None \<Rightarrow> re_search r cs)"

definition lit :: "string \<Rightarrow> regex" where
  "lit s = foldr (\<lambda>c r. Cat (Chr c) r) s Eps"

definition cat :: "regex list \<Rightarrow> regex" where
  "cat rs = foldr Cat rs Eps"

section \<open>The field extractor\<close>

datatype error = AttributeError | NotADirectoryError | ValueError

type_synonym dict = "(string \<times> string) list"

abbreviation spaces :: "citem list" where
  "spaces \<equiv> [CSpace]"

abbreviation colon_space :: "citem list" where
  "colon_space \<equiv> [CChar CHR '':'', CSpace]"

abbreviation letters_space :: "citem list" where
  "letters_space \<equiv> [CRange CHR ''A'' CHR ''Z'', CRange CHR ''a'' CHR ''z'', CSpace]"

abbreviation digits_comma :: "citem list" where
  "digits_comma \<equiv> [CRange CHR ''0'' CHR ''9'', CChar CHR '','']"

abbreviation quotes :: "citem list" where
  "quotes \<equiv> [CChar CHR 0x27, CChar CHR 0x22]"

definition constituency_patterns :: "regex list" where
  "constituency_patterns =
    [cat [lit ''constituency'', Greedy 1 None spaces, lit ''name'', Greedy 1 None colon_space,
          Grp (Lazy 1 letters_space),
          Alt (Chr CHR 0x0A) (Alt (lit ''election'') (lit ''total''))],
     cat [lit ''constituency'', Greedy 1 None colon_space,
          Grp (Lazy 1 letters_space),
          Alt (Chr CHR 0x0A) (Alt (lit ''election'') (lit ''total''))],
     cat [Grp (Cat (Cls [CRange CHR ''A'' CHR ''Z'']) (Greedy 1 None letters_space)),
          Greedy 1 None spaces, lit ''constituency''],
     cat [lit ''name'', Greedy 1 None colon_space,
          Grp (Lazy 1 letters_space),
          Alt (Chr CHR 0x0A) (Alt (lit ''total'') (lit ''election''))],
     cat [lit ''constituency'', Greedy 0 None colon_space,
          Grp (Cat (Cls [CRange CHR ''A'' CHR ''Z'', CRange CHR ''a'' CHR ''z''])
                   (Greedy 3 (Some 30) letters_space)),
          Alt (Cat (Greedy 0 None spaces) (Chr CHR 0x0A))
              (Alt (Cat (Greedy 1 None spaces) (lit ''election''))
                   (Cat (Greedy 1 None spaces) (lit ''total'')))]]"

definition elector_patterns :: "regex list" where
  "elector_patterns =
    [cat [lit ''total'', Greedy 1 None spaces,
          Opt (cat [lit ''number'', Greedy 1 None spaces, lit ''of'', Greedy 1 None spaces]),
          lit ''electors'', Greedy 1 None colon_space, Grp (Greedy 1 None digits_comma)],
     cat [lit ''electors'', Greedy 1 None colon_space, Grp (Greedy 1 None digits_comma)],
     cat [lit ''total'', Greedy 1 None spaces, lit ''electors'', Greedy 1 None colon_space,
          Grp (Greedy 1 None digits_comma)],
     cat [lit ''registered'', Greedy 1 None spaces, lit ''voters'', Greedy 1 None colon_space,
          Grp (Greedy 1 None digits_comma)],
     cat [lit ''total'', Greedy 1 None spaces, lit ''registered'', Greedy 1 None colon_space,
          Grp (Greedy 1 None digits_comma)]]"

definition valid_votes_patterns :: "regex list" where
  "valid_votes_patterns =
    [cat [lit ''total'', Greedy 1 None spaces,
          Opt (cat [lit ''number'', Greedy 1 None spaces, lit ''of'', Greedy 1 None spaces]),
          lit ''valid'', Greedy 1 None spaces, lit ''votes'', Greedy 1 None spaces,
          lit ''polled'', Greedy 1 None colon_space, Grp (Greedy 1 None digits_comma)],
     cat [lit ''valid'', Greedy 1 None spaces, lit ''votes'', Greedy 1 None spaces,
          lit ''polled'', Greedy 1 None colon_space, Grp (Greedy 1 None digits_comma)],
     cat [lit ''total'', Greedy 1 None spaces, lit ''valid'', Greedy 1 None spaces,
          lit ''votes'', Greedy 1 None colon_space, Grp (Greedy 1 None digits_comma)],
     cat [lit ''votes'', Greedy 1 None spaces, lit ''polled'', Greedy 1 None colon_space,
          Grp (Greedy 1 None digits_comma)],
     cat [lit ''total'', Greedy 1 None spaces, lit ''votes'', Greedy 1 None spaces,
          lit ''cast'', Greedy 1 None colon_space, Grp (Greedy 1 None digits_comma)]]"

definition none_of_the_above :: "regex" where
  "none_of_the_above =
     cat [lit ''none'', Greedy 1 None spaces, lit ''of'', Greedy 1 None spaces,
          lit ''the'', Greedy 1 None spaces, lit ''above'']"

definition nota_patterns :: "regex list" where
  "nota_patterns =
    [cat [none_of_the_above, Greedy 1 None colon_space, Grp (Greedy 1 None digits_comma)],
     cat [lit ''nota'', Greedy 1 None colon_space, Grp (Greedy 1 None digits_comma)],
     cat [lit ''votes'', Greedy 1 None spaces, lit ''for'', Greedy 1 None spaces,
          Greedy 0 (Some 1) quotes, none_of_the_above, Greedy 0 (Some 1) quotes,
          Greedy 1 None colon_space, Grp (Greedy 1 None digits_comma)],
     cat [Greedy 0 (Some 1) quotes, none_of_the_above, Greedy 0 (Some 1) quotes,
          Greedy 1 None colon_space, Grp (Greedy 1 None digits_comma)],
     cat [lit ''option'', Greedy 1 None spaces, lit ''nota'', Greedy 1 None colon_space,
          Grp (Greedy 1 None digits_comma)]]"

definition valid_name :: "string \<Rightarrow> bool" where
  "valid_name name =
     (length name > 3 \<and> \<not> startswith_any (lower name) [''total'', ''number'', ''election''])"

fun constituency_loop :: "regex list \<Rightarrow> string \<Rightarrow> dict \<Rightarrow> error + dict" where
  "constituency_loop [] clean_text data = Inr data"
| "constituency_loop (pattern # rest) clean_text data =
     (case re_search pattern clean_text of
        None \<Rightarrow> constituency_loop rest clean_text data
      | Some None \<Rightarrow> Inl AttributeError
      | Some (Some g) \<Rightarrow>
          (let name = strip g in
           if valid_name name then Inr (AList.update ''constituency_name'' name data)
           else constituency_loop rest clean_text data))"

fun number_loop :: "string \<Rightarrow> regex list \<Rightarrow> string \<Rightarrow> dict \<Rightarrow> error + dict" where
  "number_loop key [] clean_text data = Inr data"
| "number_loop key (pattern # rest) clean_text data =
     (case re_search pattern clean_text of
        None \<Rightarrow> number_loop key rest clean_text data
      | Some None \<Rightarrow> Inl AttributeError
      | Some (Some g) \<Rightarrow> Inr (AList.update key (replace_char CHR '','' [] g) data))"

definition clean :: "string \<Rightarrow> string" where
  "clean text = sub_spaces (strip text)"

definition bind :: "error + 'a \<Rightarrow> ('a \<Rightarrow> error + 'b) \<Rightarrow> error + 'b" where
  "bind m f = (case m of Inl e \<Rightarrow> Inl e | Inr x \<Rightarrow> f x)"

definition extract_data_from_text :: "string \<Rightarrow> string \<Rightarrow> error + dict" where
  "extract_data_from_text text filename =
     (let data = [(''filename'', filename), (''constituency_name'', ''''),
                  (''total_electors'', ''''), (''valid_votes_polled'', ''''),
                  (''nota_votes'', '''')];
          clean_text = clean text
      in bind (constituency_loop constituency_patterns clean_text data) (\<lambda>data.
         bind (number_loop ''total_electors'' elector_patterns clean_text data) (\<lambda>data.
         bind (number_loop ''valid_votes_polled'' valid_votes_patterns clean_text data) (\<lambda>data.
         number_loop ''nota_votes'' nota_patterns clean_text data))))"

section \<open>The batch orchestrator\<close>

text \<open>
  The file system as \<open>process_all_pdfs\<close> sees it: a path is absent, a file, or a
  directory with its entries in the order \<open>os.listdir\<close> enumerates them.
\<close>

datatype node = File | Dir "string list"

type_synonym filesystem = "string \<Rightarrow> node option"

definition path_exists :: "filesystem \<Rightarrow> string \<Rightarrow> bool" where
  "path_exists fs p = (fs p \<noteq> None)"

definition listdir :: "filesystem \<Rightarrow> string \<Rightarrow> error + string list" where
  "listdir fs p = (case fs p of Some (Dir names) \<Rightarrow> Inr names | _ \<Rightarrow> Inl NotADirectoryError)"

definition path_join :: "string \<Rightarrow> string \<Rightarrow> string" where
  "path_join a b =
     (if startswith b ''/'' then b
      else if a = [] \<or> endswith a ''/'' then a @ b
      else a @ ''/'' @ b)"

text \<open>
  \<open>extract_text_from_pdf\<close>: without a client the mock text is returned; with a client,
  any exception of reading the file or of the service call (\<open>None\<close> here) is caught and
  the empty string returned.
\<close>

record parser =
  client :: "(string \<Rightarrow> string option) option"
  mock_pdf_text :: "string \<Rightarrow> string"

definition extract_text_from_pdf :: "parser \<Rightarrow> string \<Rightarrow> string" where
  "extract_text_from_pdf self pdf_path =
     (case client self of
        None \<Rightarrow> mock_pdf_text self pdf_path
      | Some process_document \<Rightarrow>
          (case process_document pdf_path of Some text \<Rightarrow> text | None \<Rightarrow> []))"

definition is_pdf :: "string \<Rightarrow> bool" where
  "is_pdf f = endswith (lower f) ''.pdf''"

fun process_loop :: "parser \<Rightarrow> string \<Rightarrow> string list \<Rightarrow> dict list \<Rightarrow> error + dict list" where
  "process_loop self folder [] all_data = Inr all_data"
| "process_loop self folder (pdf_file # rest) all_data =
     (let pdf_path = path_join folder pdf_file;
          text = extract_text_from_pdf self pdf_path
      in if text \<noteq> [] then
           bind (extract_data_from_text text pdf_file) (\<lambda>data.
             process_loop self folder rest (all_data @ [data]))
         else process_loop self folder rest all_data)"

definition process_all_pdfs :: "parser \<Rightarrow> filesystem \<Rightarrow> string \<Rightarrow> error + dict list" where
  "process_all_pdfs self fs PDF_FOLDER =
     (if \<not> path_exists fs PDF_FOLDER then Inr []
      else bind (listdir fs PDF_FOLDER) (\<lambda>names.
        let pdf_files = filter is_pdf names in
        if pdf_files = [] then Inr []
        else process_loop self PDF_FOLDER pdf_files []))"

section \<open>The tabular exporter\<close>

datatype cell = Str string | NaN

record table =
  columns :: "string list"
  rows :: "cell list list"

datatype message = No_data_to_save | Data_saved_to string | Total_records nat

record world =
  dirs :: "string set"
  files :: "string \<Rightarrow> table option"
  stdout :: "message list"

text \<open>
  \<open>pd.DataFrame(data)\<close> for a list of dicts: the columns are the keys in the order of
  their first appearance, and a row holds \<open>NaN\<close> where its dict lacks the key.
\<close>

definition first_seen :: "string list \<Rightarrow> string list" where
  "first_seen ks = fold (\<lambda>k seen. if k \<in> set seen then seen else seen @ [k]) ks []"

definition data_frame :: "dict list \<Rightarrow> table" where
  "data_frame data =
     (let cols = first_seen (concat (map (map fst) data))
      in \<lparr>columns = cols,
          rows = map (\<lambda>d. map (\<lambda>c. case map_of d c of Some v \<Rightarrow> Str v | None \<Rightarrow> NaN) cols) data\<rparr>)"

text \<open>Assigning \<open>df.columns\<close> raises \<open>ValueError\<close> unless the lengths agree.\<close>

definition set_columns :: "table \<Rightarrow> string list \<Rightarrow> error + table" where
  "set_columns df names =
     (if length names = length (columns df) then Inr (df\<lparr>columns := names\<rparr>)
      else Inl ValueError)"

definition headers :: "string list" where
  "headers = [''Filename'', ''Constituency Name'', ''Total Electors'',
              ''Valid Votes Polled'', ''NOTA Votes'']"

definition save_to_excel :: "string \<Rightarrow> string \<Rightarrow> dict list \<Rightarrow> world \<Rightarrow> error + world" where
  "save_to_excel OUTPUT_FOLDER OUTPUT_FILE data w =
     (if data = [] then Inr (w\<lparr>stdout := stdout w @ [No_data_to_save]\<rparr>)
      else
        let w1 = w\<lparr>dirs := insert OUTPUT_FOLDER (dirs w)\<rparr>;
            df = data_frame data
        in bind (set_columns df headers) (\<lambda>df.
           let output_path = path_join OUTPUT_FOLDER OUTPUT_FILE
           in Inr (w1\<lparr>files := (files w1)(output_path \<mapsto> df),
                       stdout := stdout w1 @ [Data_saved_to output_path,
                                             Total_records (length data)]\<rparr>)))"

section \<open>Example inputs\<close>

definition example_text :: string where
  "example_text = ''Constituency Name: Example East'' @ [CHR 0x0A] @
     ''Total number of electors: 45,678'' @ [CHR 0x0A] @
     ''Total number of valid votes polled: 38,234'' @ [CHR 0x0A] @
     ''Total number of votes for '' @ [CHR 0x27] @ ''None of the Above'' @ [CHR 0x27] @
     '': 1,234''"

section \<open>The end-to-end scenario\<close>

text \<open>
  Claim C2: on the four-line example text (label lines separated by newlines) the
  extractor returns the record with constituency name \<open>Example East\<close>, total electors
  \<open>45678\<close>, valid votes polled \<open>38234\<close> and NOTA votes \<open>1234\<close>, whatever the source
  identifier is.
\<close>

theorem extract_example:
  "extract_data_from_text example_text filename =
     Inr [(''filename'', filename), (''constituency_name'', ''Example East''),
          (''total_electors'', ''45678''), (''valid_votes_polled'', ''38234''),
          (''nota_votes'', ''1234'')]"
  by code_simp

end
